theory Spec2Isabelle
  imports Complex_Main "HOL-Library.AList"
begin

section \<open>Data model of \<open>psst.model\<close>\<close>

text \<open>
  The module \<open>psst/model/__init__.py\<close> holds \<open>build_model\<close> and the class
  \<open>PSSTModel\<close>. Python floats are modelled as \<open>real\<close>, a missing cell of a data
  frame (NaN) as \<open>None\<close>, a Python dictionary as an association list in insertion
  order (\<open>AList.update\<close> overwrites in place and appends a new key, as \<open>d[k] = v\<close>
  does), and every exception the embedded code can raise as a value of \<open>error\<close>.
\<close>

type_synonym gen_name = string

text \<open>Values a caller may store in the \<open>config\<close> dictionary.\<close>

datatype pyval = PyNone | PyBool bool | PyInt int | PyStr string

text \<open>
  The exceptions, each with the values its message is formatted from:
  \<open>NotImplementedError_ncost n\<close> is "Unable to build cost function for ncost=n",
  \<open>NotImplementedError_market v\<close> is "Unknown market type v",
  \<open>AssertionError_single_point i n\<close> is the assertion of the piecewise branch
  (generator \<open>i\<close>, \<open>NCOST = n\<close>), \<open>AssertionError_points ps k\<close> and
  \<open>AssertionError_values vs k\<close> are the two length assertions with \<open>genco = k\<close>.
\<close>

datatype error =
    NotImplementedError_ncost int
  | NotImplementedError_market pyval
  | AssertionError_single_point gen_name int
  | AssertionError_points "real list" gen_name
  | AssertionError_values "real list" gen_name
  | KeyError_COST nat
  | KeyError_UnitOn gen_name int
  | ValueError
  | TypeError
  | SolverError string

definition bindE :: "error + 'a \<Rightarrow> ('a \<Rightarrow> error + 'b) \<Rightarrow> error + 'b" where
  "bindE m f = (case m of Inl e \<Rightarrow> Inl e | Inr x \<Rightarrow> f x)"

subsection \<open>Initial state from the previous commitment (lines 197-222)\<close>

text \<open>
  A data frame of commitments is its index labels and its columns, one list of cells per
  generator. \<open>diff\<close> is \<open>DataFrame.diff()\<close> on one column: the first cell is NaN, cell
  \<open>n\<close> is \<open>col[n] - col[n-1]\<close>, NaN when either is.
\<close>

record commitment_df =
  df_index :: "int list"
  df_columns :: "(gen_name \<times> real option list) list"

fun nan_sub :: "real option \<Rightarrow> real option \<Rightarrow> real option" where
  "nan_sub (Some b) (Some a) = Some (b - a)"
| "nan_sub _ _ = None"

definition diff :: "real option list \<Rightarrow> real option list" where
  "diff col = (case col of [] \<Rightarrow> [] | _ # rest \<Rightarrow> None # map2 nan_sub rest col)"

text \<open>
  The body of the loop \<open>for col in diff.columns\<close> for one column: \<open>s\<close> is
  \<open>diff[col].dropna()\<close>, \<open>diff_s\<close> is \<open>s[s != 0]\<close>, \<open>check_row\<close> is \<open>head(1)\<close> of the
  column itself when \<open>diff_s\<close> is empty and \<open>tail(1)\<close> of \<open>diff_s\<close> otherwise. On a
  frame with no rows \<open>check_row\<close> is empty and \<open>int(check_row.index.values)\<close> raises
  TypeError. \<open>T\<close> is \<open>len(load_df)\<close>.
\<close>

definition derive_initial_state :: "nat \<Rightarrow> int list \<Rightarrow> real option list \<Rightarrow> error + int" where
  "derive_initial_state T index col =
     (let s = filter (\<lambda>(l, v). v \<noteq> None) (zip index (diff col));
          diff_s = filter (\<lambda>(l, v). v \<noteq> Some 0) s;
          check_row = (if diff_s = [] then take 1 (zip index col) else [last diff_s])
      in case check_row of
           [] \<Rightarrow> Inl TypeError
         | (l, v) # _ \<Rightarrow>
             if v = Some (- 1) \<or> v = Some 0 then Inr (- 1 * (int T - l))
             else Inr (int T - l))"

fun initial_state_loop ::
  "nat \<Rightarrow> int list \<Rightarrow> (gen_name \<times> real option list) list \<Rightarrow> (gen_name \<times> int) list
     \<Rightarrow> error + (gen_name \<times> int) list" where
  "initial_state_loop T index [] initial_state_dict = Inr initial_state_dict"
| "initial_state_loop T index ((col, cells) # cols) initial_state_dict =
     bindE (derive_initial_state T index cells)
       (\<lambda>st. initial_state_loop T index cols (AList.update col st initial_state_dict))"

text \<open>
  Lines 197-202: without a previous commitment every generator of
  \<open>generator_df.index\<close> gets the all-zero column \<open>[0] * len(load_df)\<close>, indexed as
  \<open>load_df\<close> is.
\<close>

definition default_previous_unit_commitment :: "gen_name list \<Rightarrow> int list \<Rightarrow> commitment_df" where
  "default_previous_unit_commitment names load_index =
     \<lparr>df_index = load_index,
      df_columns = fold (\<lambda>g. AList.update g (replicate (length load_index) (Some 0))) names []\<rparr>"

definition initial_state_derivation ::
  "gen_name list \<Rightarrow> int list \<Rightarrow> commitment_df option \<Rightarrow> error + (gen_name \<times> int) list" where
  "initial_state_derivation names load_index previous_unit_commitment_df =
     (let df = (case previous_unit_commitment_df of
                  None \<Rightarrow> default_previous_unit_commitment names load_index
                | Some d \<Rightarrow> d)
      in initial_state_loop (length load_index) (df_index df) (df_columns df) [])"

subsection \<open>Piecewise cost curves (lines 226-279)\<close>

text \<open>
  The columns of a row of \<open>generator_df\<close> that the embedded code reads. \<open>COST\<close> holds
  the columns \<open>COST_0\<close>, \<open>COST_1\<close>, ... that the frame has; reading a column beyond them
  raises KeyError.
\<close>

record generator =
  PMIN :: real
  PMAX :: real
  MODEL :: int
  NCOST :: int
  COST :: "real list"
  STARTUP :: real
  SHUTDOWN :: real

type_synonym curves = "(gen_name \<times> real list) list"

definition cost_column :: "generator \<Rightarrow> nat \<Rightarrow> error + real" where
  "cost_column g k = (if k < length (COST g) then Inr (COST g ! k) else Inl (KeyError_COST k))"

text \<open>
  \<open>numpy.linspace(start, stop, num)\<close>: \<open>num\<close> evenly spaced samples with both ends
  included, the last sample set to \<open>stop\<close> when there is more than one; a negative
  \<open>num\<close> raises ValueError. \<open>index_of\<close> is the integer \<open>num\<close> is read as.
\<close>

definition linspace :: "real \<Rightarrow> real \<Rightarrow> int \<Rightarrow> error + real list" where
  "linspace start stop num =
     (if num < 0 then Inl ValueError
      else let n = nat num;
               step = (stop - start) / real (n - 1);
               y = map (\<lambda>k. start + real k * step) [0..<n]
           in Inr (if 1 < n then y[n - 1 := stop] else y))"

definition index_of :: "pyval \<Rightarrow> error + int" where
  "index_of v = (case v of PyInt n \<Rightarrow> Inr n
                         | PyBool b \<Rightarrow> Inr (if b then 1 else 0)
                         | _ \<Rightarrow> Inl TypeError)"

text \<open>The branch \<open>MODEL == 2\<close> (lines 234-250).\<close>

definition polynomial_cost :: "pyval \<Rightarrow> generator \<Rightarrow> error + real list \<times> real list" where
  "polynomial_cost segments g =
     (if NCOST g = 2 then
        let small_increment = (if PMIN g = PMAX g then 1 else 0) in
        bindE (linspace (PMIN g) (PMAX g + small_increment) 2) (\<lambda>ps.
        bindE (cost_column g 0) (\<lambda>c0.
        bindE (cost_column g 1) (\<lambda>c1.
          Inr (ps, map (\<lambda>p. c0 + c1 * p) ps))))
      else if NCOST g = 3 then
        bindE (index_of segments) (\<lambda>num.
        bindE (linspace (PMIN g) (PMAX g) num) (\<lambda>ps.
        bindE (cost_column g 0) (\<lambda>c0.
        bindE (cost_column g 1) (\<lambda>c1.
        bindE (cost_column g 2) (\<lambda>c2.
          Inr (ps, map (\<lambda>p. c0 + c1 * p + c2 * p ^ 2) ps))))))
      else Inl (NotImplementedError_ncost (NCOST g)))"

text \<open>
  The branch \<open>MODEL == 1\<close> (lines 252-264): the loop reads \<open>COST_{2n+1}\<close> into \<open>v[n]\<close>
  first, then \<open>COST_{2n}\<close> into \<open>p[n]\<close>. \<open>zeros\<close> of a negative length raises
  ValueError.
\<close>

fun piecewise_pairs :: "generator \<Rightarrow> nat list \<Rightarrow> error + (real \<times> real) list" where
  "piecewise_pairs g [] = Inr []"
| "piecewise_pairs g (n # ns) =
     bindE (cost_column g (2 * n + 1)) (\<lambda>v.
     bindE (cost_column g (2 * n)) (\<lambda>p.
     bindE (piecewise_pairs g ns) (\<lambda>rest. Inr ((p, v) # rest))))"

definition piecewise_cost :: "gen_name \<Rightarrow> generator \<Rightarrow> error + real list \<times> real list" where
  "piecewise_cost i g =
     (if NCOST g = 1 then Inl (AssertionError_single_point i (NCOST g))
      else if NCOST g < 0 then Inl ValueError
      else bindE (piecewise_pairs g [0..<nat (NCOST g)])
             (\<lambda>pv. Inr (map fst pv, map snd pv)))"

text \<open>The branch \<open>MODEL == 0\<close> (lines 266-272).\<close>

definition fixed_cost :: "generator \<Rightarrow> real list \<times> real list" where
  "fixed_cost g = ([0, PMAX g], [0, 1 / 100])"

text \<open>
  One pass of the loop \<open>for i, g in generator_df.iterrows()\<close>: three \<open>if\<close> statements
  in sequence, each storing its curve under the generator's name.
\<close>

definition store_curve :: "gen_name \<Rightarrow> real list \<times> real list \<Rightarrow> curves \<times> curves \<Rightarrow> curves \<times> curves" where
  "store_curve i pv d = (AList.update i (fst pv) (fst d), AList.update i (snd pv) (snd d))"

definition cost_curve_step ::
  "pyval \<Rightarrow> gen_name \<times> generator \<Rightarrow> curves \<times> curves \<Rightarrow> error + curves \<times> curves" where
  "cost_curve_step segments row d =
     (let i = fst row; g = snd row in
      bindE (if MODEL g = 2
             then bindE (polynomial_cost segments g) (\<lambda>pv. Inr (store_curve i pv d))
             else Inr d) (\<lambda>d.
      bindE (if MODEL g = 1
             then bindE (piecewise_cost i g) (\<lambda>pv. Inr (store_curve i pv d))
             else Inr d) (\<lambda>d.
      Inr (if MODEL g = 0 then store_curve i (fixed_cost g) d else d))))"

fun cost_curves ::
  "pyval \<Rightarrow> (gen_name \<times> generator) list \<Rightarrow> curves \<times> curves \<Rightarrow> error + curves \<times> curves" where
  "cost_curves segments [] d = Inr d"
| "cost_curves segments (row # rows) d =
     bindE (cost_curve_step segments row d) (cost_curves segments rows)"

text \<open>
  Lines 274-279: each curve is coerced to a list of floats (the identity on \<open>real\<close>) and
  its length asserted; the first curve shorter than two raises, with the curve and its
  generator in the message.
\<close>

fun validate_points :: "curves \<Rightarrow> error + curves" where
  "validate_points [] = Inr []"
| "validate_points ((k, v) # rest) =
     (if 2 \<le> length v then bindE (validate_points rest) (\<lambda>r. Inr ((k, v) # r))
      else Inl (AssertionError_points v k))"

fun validate_values :: "curves \<Rightarrow> error + curves" where
  "validate_values [] = Inr []"
| "validate_values ((k, v) # rest) =
     (if 2 \<le> length v then bindE (validate_values rest) (\<lambda>r. Inr ((k, v) # r))
      else Inl (AssertionError_values v k))"

definition piecewise_curves ::
  "pyval \<Rightarrow> (gen_name \<times> generator) list \<Rightarrow> error + curves \<times> curves" where
  "piecewise_curves segments rows =
     bindE (cost_curves segments rows ([], [])) (\<lambda>d.
     bindE (validate_points (fst d)) (\<lambda>points.
     bindE (validate_values (snd d)) (\<lambda>values. Inr (points, values))))"




subsection \<open>Configuration and reserve factors (lines 64-82)\<close>

text \<open>
  \<open>config.pop(key, default)\<close> returns the stored value and removes the key, or returns
  the default and leaves the dictionary alone. The dictionary is the caller's object, so
  \<open>build_model\<close> returns it as it is after the call.
\<close>

type_synonym config = "string \<rightharpoonup> pyval"

definition pop :: "string \<Rightarrow> pyval \<Rightarrow> config \<Rightarrow> pyval \<times> config" where
  "pop key dflt c = (case c key of None \<Rightarrow> (dflt, c) | Some v \<Rightarrow> (v, c(key := None)))"

record options =
  cfg_use_ptdf :: pyval
  cfg_segments :: pyval
  cfg_has_global_reserves :: pyval
  cfg_resolve :: pyval
  cfg_market_type :: pyval

definition get_configuration :: "config \<Rightarrow> options \<times> config" where
  "get_configuration c0 =
     (let p1 = pop ''use_ptdf'' (PyBool False) c0;
          p2 = pop ''segments'' (PyInt 2) (snd p1);
          p3 = pop ''has_global_reserves'' (PyBool True) (snd p2);
          p4 = pop ''resolve'' (PyBool False) (snd p3);
          p5 = pop ''market_type'' (PyStr ''day_ahead'') (snd p4)
      in (\<lparr>cfg_use_ptdf = fst p1, cfg_segments = fst p2, cfg_has_global_reserves = fst p3,
           cfg_resolve = fst p4, cfg_market_type = fst p5\<rparr>, snd p5))"

text \<open>
  Lines 75-82, the three \<open>if ... is None\<close> statements in order; the second assigns
  \<open>reserve_factor\<close>. The result is (\<open>reserve_factor\<close>, \<open>regulating_reserve_factor\<close>,
  \<open>flexible_ramp_factor\<close>) as they are passed on at lines 306-311.
\<close>

definition default_factors ::
  "real option \<Rightarrow> real option \<Rightarrow> real option \<Rightarrow> real option \<times> real option \<times> real option" where
  "default_factors reserve regulating flexible =
     (let reserve = (if reserve = None then Some 0 else reserve);
          reserve = (if regulating = None then Some 0 else reserve);
          flexible = (if flexible = None then Some 0 else flexible)
      in (reserve, regulating, flexible))"

subsection \<open>The optimisation model\<close>

text \<open>
  The Pyomo model, as far as \<open>build_model\<close> and \<open>solve\<close> determine it: the arguments
  handed to the assemblers of the sibling modules (initial states, cost curves, start-up
  and shut-down costs, the three reserve factors, the \<open>resolve\<close> flag given to
  \<open>constraint_up_down_time\<close>), whether the flexible-ramp constraints were added, the
  commitment variables \<open>UnitOn[g, t]\<close> and the activity of the four minimum up-time and
  down-time constraint groups. Network, demand, renewable and hydro data only pass
  through \<open>build_model\<close> to the assemblers and are left out.
\<close>

record variable =
  var_value :: "real option"
  var_fixed :: bool

record pyomo_model =
  m_initial_state :: "(gen_name \<times> int) list"
  m_points :: curves
  m_values :: curves
  m_hot_start_costs :: "(gen_name \<times> real) list"
  m_cold_start_costs :: "(gen_name \<times> real) list"
  m_shutdown_costs :: "(gen_name \<times> real) list"
  m_reserve_factor :: "real option"
  m_regulating_reserve_factor :: "real option"
  m_flexible_ramp_factor :: "real option"
  m_up_down_time_resolve :: pyval
  m_flexible_ramping :: bool
  UnitOn :: "gen_name \<times> int \<rightharpoonup> variable"
  EnforceUpTimeConstraintsInitial :: bool
  EnforceUpTimeConstraintsSubsequent :: bool
  EnforceDownTimeConstraintsInitial :: bool
  EnforceDownTimeConstraintsSubsequent :: bool

text \<open>\<open>Series.to_dict()\<close> of one column of \<open>generator_df\<close>.\<close>

definition to_dict :: "(generator \<Rightarrow> real) \<Rightarrow> (gen_name \<times> generator) list \<Rightarrow> (gen_name \<times> real) list" where
  "to_dict col rows = fold (\<lambda>r. AList.update (fst r) (col (snd r))) rows []"

text \<open>
  Modelled from the spec: \<open>initialize_model\<close> (module \<open>model\<close>, not in this file)
  declares the decision variables; the commitment variables are one binary variable per
  generator and time period, without a value and not fixed.
\<close>

definition initialize_model :: "gen_name list \<Rightarrow> int list \<Rightarrow> (gen_name \<times> int \<rightharpoonup> variable)" where
  "initialize_model generators time_periods =
     (\<lambda>(g, t). if g \<in> set generators \<and> t \<in> set time_periods
                then Some \<lparr>var_value = None, var_fixed = False\<rparr> else None)"

text \<open>
  Modelled from the spec: \<open>constraint_up_down_time\<close> (module \<open>constraints\<close>, not in this
  file) adds the minimum up-time and down-time constraint groups, active; the model
  keeps the \<open>resolve\<close> argument it was called with.
\<close>

definition constraint_up_down_time :: "pyval \<Rightarrow> pyomo_model \<Rightarrow> pyomo_model" where
  "constraint_up_down_time resolve_flag m =
     m\<lparr>m_up_down_time_resolve := resolve_flag,
       EnforceUpTimeConstraintsInitial := True,
       EnforceUpTimeConstraintsSubsequent := True,
       EnforceDownTimeConstraintsInitial := True,
       EnforceDownTimeConstraintsSubsequent := True\<rparr>"

text \<open>
  Modelled from the spec: \<open>constraint_for_Flexible_Ramping\<close> (module \<open>constraints\<close>, not
  in this file) adds the flexible-ramp constraints to the model.
\<close>

definition constraint_for_Flexible_Ramping :: "pyomo_model \<Rightarrow> pyomo_model" where
  "constraint_for_Flexible_Ramping m = m\<lparr>m_flexible_ramping := True\<rparr>"

text \<open>Lines 328-335, the selection on \<open>market_type\<close>.\<close>

definition flexible_ramping_selector :: "pyval \<Rightarrow> pyomo_model \<Rightarrow> error + pyomo_model" where
  "flexible_ramping_selector market_type m =
     (if market_type = PyStr ''day_ahead'' then Inr (constraint_for_Flexible_Ramping m)
      else if market_type = PyStr ''hourly_ahead'' then Inr (constraint_for_Flexible_Ramping m)
      else if market_type = PyStr ''real_time'' then Inr (constraint_for_Flexible_Ramping m)
      else Inl (NotImplementedError_market market_type))"

subsection \<open>\<open>PSSTModel\<close> and \<open>build_model\<close>\<close>

datatype results_handle = PSSTResults

record PSSTModel =
  psst_model :: pyomo_model
  psst_is_solved :: bool
  psst_status :: "string option"
  psst_results :: "results_handle option"

definition PSSTModel_init :: "pyomo_model \<Rightarrow> PSSTModel" where
  "PSSTModel_init m =
     \<lparr>psst_model = m, psst_is_solved = False, psst_status = None, psst_results = None\<rparr>"

text \<open>
  \<open>build_model\<close>: the rows of \<open>generator_df\<close>, the index of \<open>load_df\<close>, the optional
  previous commitment, the three optional factors and the optional \<open>config\<close>. The first
  component of the result is the \<open>config\<close> dictionary after the call (the keys are
  popped before anything can raise), the second the exception raised or the
  \<open>PSSTModel\<close> returned.
\<close>

definition build_model ::
  "(gen_name \<times> generator) list \<Rightarrow> int list \<Rightarrow> commitment_df option
     \<Rightarrow> real option \<Rightarrow> real option \<Rightarrow> real option \<Rightarrow> config option
     \<Rightarrow> config \<times> (error + PSSTModel)" where
  "build_model generator_df load_index previous_unit_commitment_df
       reserve_factor regulating_reserve_factor flexible_ramp_factor config =
     (let popped = get_configuration (case config of None \<Rightarrow> Map.empty | Some c \<Rightarrow> c);
          opts = fst popped;
          factors = default_factors reserve_factor regulating_reserve_factor flexible_ramp_factor
      in (snd popped,
          bindE (initial_state_derivation (map fst generator_df) load_index
                   previous_unit_commitment_df) (\<lambda>initial_state_dict.
          bindE (piecewise_curves (cfg_segments opts) generator_df) (\<lambda>curves.
          bindE (flexible_ramping_selector (cfg_market_type opts)
                   (constraint_up_down_time (cfg_resolve opts)
                      \<lparr>m_initial_state = initial_state_dict,
                       m_points = fst curves,
                       m_values = snd curves,
                       m_hot_start_costs = to_dict STARTUP generator_df,
                       m_cold_start_costs = to_dict STARTUP generator_df,
                       m_shutdown_costs = to_dict SHUTDOWN generator_df,
                       m_reserve_factor = fst factors,
                       m_regulating_reserve_factor = fst (snd factors),
                       m_flexible_ramp_factor = snd (snd factors),
                       m_up_down_time_resolve = PyNone,
                       m_flexible_ramping = False,
                       UnitOn = initialize_model (map fst generator_df) load_index,
                       EnforceUpTimeConstraintsInitial = False,
                       EnforceUpTimeConstraintsSubsequent = False,
                       EnforceDownTimeConstraintsInitial = False,
                       EnforceDownTimeConstraintsSubsequent = False\<rparr>))
            (\<lambda>model. Inr (PSSTModel_init model))))))"

text \<open>
  Modelled from the spec: the start-up cost constraints built by
  \<open>hot_start_cold_start_costs\<close> (module \<open>generators\<close>, not in this file) select the
  hot-start or the cold-start cost of a generator by its offline duration relative to a
  threshold.
\<close>

definition startup_cost_coefficient :: "pyomo_model \<Rightarrow> gen_name \<Rightarrow> int \<Rightarrow> int \<Rightarrow> real option" where
  "startup_cost_coefficient m g offline_duration threshold =
     (if offline_duration \<le> threshold then map_of (m_hot_start_costs m) g
      else map_of (m_cold_start_costs m) g)"

text \<open>The configuration keys \<open>build_model\<close> pops, and a generator row used as example input.\<close>

definition recognized_keys :: "string set" where
  "recognized_keys = {''use_ptdf'', ''segments'', ''has_global_reserves'', ''resolve'', ''market_type''}"

definition example_generator :: generator where
  "example_generator = \<lparr>PMIN = 0, PMAX = 10, MODEL = 0, NCOST = 0, COST = [],
                         STARTUP = 7, SHUTDOWN = 3\<rparr>"

subsection \<open>\<open>PSSTModel.solve\<close> (lines 372-395)\<close>

text \<open>
  \<open>solve_model\<close> and \<open>PSSTResults\<close> belong to the module \<open>solver\<close>, which is not part of
  this file; \<open>solve\<close> takes them as parameters. \<open>solve_model\<close> receives the model, the
  solver name, \<open>verbose\<close>, \<open>keepfiles\<close> and \<open>is_mip\<close> (None when the call does not pass
  it) and returns the model with the solution loaded, or the solver's failure; further
  keyword arguments of \<open>solve\<close> are handed to \<open>solve_model\<close> as they are and are left out.
  \<open>unit_commitment\<close> is the table \<open>self.results.unit_commitment\<close> read from the model:
  rows labelled by periods, columns by generators, a cell is a float or NaN. Labels are
  taken to be unique, so a cell is a function of its two labels.
\<close>

record uc_table =
  uc_index :: "int list"
  uc_columns :: "gen_name list"
  uc_cell :: "int \<Rightarrow> gen_name \<Rightarrow> real option"

type_synonym solve_model_fn =
  "pyomo_model \<Rightarrow> string \<Rightarrow> bool \<Rightarrow> bool \<Rightarrow> bool option \<Rightarrow> error + pyomo_model"

text \<open>\<open>int(float(v))\<close>: truncation toward zero.\<close>

definition py_int :: "real \<Rightarrow> int" where
  "py_int x = (if 0 \<le> x then \<lfloor>x\<rfloor> else \<lceil>x\<rceil>)"

text \<open>
  Lines 384-385 for one cell that is not null: \<open>UnitOn[g, t].fixed = True\<close>, then
  \<open>UnitOn[g, t] = int(float(v))\<close>; indexing an undeclared variable raises KeyError.
\<close>

definition fix_UnitOn :: "gen_name \<Rightarrow> int \<Rightarrow> real \<Rightarrow> pyomo_model \<Rightarrow> error + pyomo_model" where
  "fix_UnitOn g t v m =
     (case UnitOn m (g, t) of
        None \<Rightarrow> Inl (KeyError_UnitOn g t)
      | Some var \<Rightarrow>
          Inr (m\<lparr>UnitOn := (UnitOn m)((g, t) \<mapsto>
                 var\<lparr>var_fixed := True, var_value := Some (real_of_int (py_int v))\<rparr>)\<rparr>))"

text \<open>The loops of lines 381-385: rows by \<open>iterrows\<close>, cells by \<open>iteritems\<close>, null cells skipped.\<close>

fun fix_row :: "uc_table \<Rightarrow> int \<Rightarrow> gen_name list \<Rightarrow> pyomo_model \<Rightarrow> error + pyomo_model" where
  "fix_row tbl t [] m = Inr m"
| "fix_row tbl t (g # gs) m =
     (case uc_cell tbl t g of
        None \<Rightarrow> fix_row tbl t gs m
      | Some v \<Rightarrow> bindE (fix_UnitOn g t v m) (fix_row tbl t gs))"

fun fix_rows :: "uc_table \<Rightarrow> int list \<Rightarrow> pyomo_model \<Rightarrow> error + pyomo_model" where
  "fix_rows tbl [] m = Inr m"
| "fix_rows tbl (t # ts) m = bindE (fix_row tbl t (uc_columns tbl) m) (fix_rows tbl ts)"

text \<open>Lines 387-390.\<close>

definition deactivate_up_down_time :: "pyomo_model \<Rightarrow> pyomo_model" where
  "deactivate_up_down_time m =
     m\<lparr>EnforceUpTimeConstraintsInitial := False,
       EnforceUpTimeConstraintsSubsequent := False,
       EnforceDownTimeConstraintsInitial := False,
       EnforceDownTimeConstraintsSubsequent := False\<rparr>"

text \<open>
  \<open>solve\<close>: the first solve, \<open>resolve\<close> forced for the solver \<open>xpress\<close>, then under
  \<open>resolve\<close> the fixing loop, the four deactivations and the second solve with
  \<open>is_mip=False\<close>; at the end the status is \<open>solved\<close>.
\<close>

definition PSSTModel_solve ::
  "solve_model_fn \<Rightarrow> (pyomo_model \<Rightarrow> uc_table) \<Rightarrow> PSSTModel \<Rightarrow> string \<Rightarrow> bool \<Rightarrow> bool \<Rightarrow> bool
     \<Rightarrow> error + PSSTModel" where
  "PSSTModel_solve solve_model unit_commitment self solver verbose keepfiles resolve_arg =
     bindE (solve_model (psst_model self) solver verbose keepfiles None) (\<lambda>m1.
     let self1 = self\<lparr>psst_model := m1, psst_results := Some PSSTResults\<rparr>;
         resolve_now = (if solver = ''xpress'' then True else resolve_arg)
     in bindE (if resolve_now then
                 bindE (fix_rows (unit_commitment m1) (uc_index (unit_commitment m1)) m1) (\<lambda>m2.
                 bindE (solve_model (deactivate_up_down_time m2) solver verbose keepfiles
                          (Some False)) (\<lambda>m3.
                 Inr (self1\<lparr>psst_model := m3, psst_results := Some PSSTResults\<rparr>)))
               else Inr self1)
          (\<lambda>self2. Inr (self2\<lparr>psst_status := Some ''solved''\<rparr>)))"


text \<open>
  A caller that builds a model with a \<open>config\<close> and then calls \<open>solve\<close> with a solver
  name only (\<open>resolve\<close> at its default): \<open>m = build_model(..., config=config)\<close>,
  \<open>m.solve(solver=solver)\<close>.
\<close>

definition build_then_solve ::
  "solve_model_fn \<Rightarrow> (pyomo_model \<Rightarrow> uc_table) \<Rightarrow> (gen_name \<times> generator) list \<Rightarrow> int list
     \<Rightarrow> config option \<Rightarrow> string \<Rightarrow> error + PSSTModel" where
  "build_then_solve solve_model unit_commitment generator_df load_index config solver =
     bindE (snd (build_model generator_df load_index None None None None config))
       (\<lambda>self. PSSTModel_solve solve_model unit_commitment self solver False False False)"

text \<open>Whether \<open>UnitOn[g, t]\<close> is fixed in the model a call returned.\<close>

definition commitment_fixed :: "error + PSSTModel \<Rightarrow> gen_name \<Rightarrow> int \<Rightarrow> bool option" where
  "commitment_fixed r g t =
     (case r of Inl e \<Rightarrow> None
              | Inr self \<Rightarrow> map_option var_fixed (UnitOn (psst_model self) (g, t)))"


definition example_solve_model :: solve_model_fn where
  "example_solve_model m solver verbose keepfiles is_mip =
     Inr (m\<lparr>UnitOn := (\<lambda>k. map_option
              (\<lambda>var. if var_fixed var then var else var\<lparr>var_value := Some 1\<rparr>) (UnitOn m k))\<rparr>)"

definition stale_solve_model :: solve_model_fn where
  "stale_solve_model m solver verbose keepfiles is_mip = Inr m"

definition example_unit_commitment :: "pyomo_model \<Rightarrow> uc_table" where
  "example_unit_commitment m =
     \<lparr>uc_index = [0], uc_columns = [''g1''],
      uc_cell = (\<lambda>t g. case UnitOn m (g, t) of None \<Rightarrow> None | Some var \<Rightarrow> var_value var)\<rparr>"

section \<open>Theorems\<close>

text \<open>
  C4. A generator whose previous commitment over four periods is [1,1,0,0] gets the
  initial state -2: with the periods labelled 0..3 the last transition is at label 2
  and has difference -1, so the state is -(4 - 2). For any labelling of the four
  periods the result is -(4 - l), with l the label of the third period.
\<close>

theorem initial_state_on_on_off_off:
  "initial_state_derivation [''g1''] [0, 1, 2, 3]
     (Some \<lparr>df_index = [0, 1, 2, 3],
            df_columns = [(''g1'', [Some 1, Some 1, Some 0, Some 0])]\<rparr>)
   = Inr [(''g1'', - 2)]
   \<and> derive_initial_state 4 [0, 1, 2, 3] [Some 1, Some 1, Some 0, Some 0] = Inr (- 2)
   \<and> derive_initial_state 4 [l0, l1, l2, l3] [Some 1, Some 1, Some 0, Some 0]
       = Inr (- (4 - l2))"
  by (simp add: initial_state_derivation_def derive_initial_state_def diff_def bindE_def)

text \<open>
  C5. A generator whose previous commitment over four periods is the constant
  [1,1,1,1] has no transition; the first cell (value 1, label 0) decides, and the
  initial state is +4. For any labelling the result is 4 - l, with l the first label.
\<close>

theorem initial_state_constant_on:
  "initial_state_derivation [''g1''] [0, 1, 2, 3]
     (Some \<lparr>df_index = [0, 1, 2, 3],
            df_columns = [(''g1'', [Some 1, Some 1, Some 1, Some 1])]\<rparr>)
   = Inr [(''g1'', 4)]
   \<and> derive_initial_state 4 [0, 1, 2, 3] [Some 1, Some 1, Some 1, Some 1] = Inr 4
   \<and> derive_initial_state 4 [l0, l1, l2, l3] [Some 1, Some 1, Some 1, Some 1]
       = Inr (4 - l0)"
  by (simp add: initial_state_derivation_def derive_initial_state_def diff_def bindE_def)

subsection \<open>Cost curves\<close>

lemma upt_two: "[0..<2] = [0, Suc 0]"
  by (simp add: numeral_2_eq_2)

lemma linspace_two: "linspace a b 2 = Inr [a, b]"
  by (simp add: linspace_def upt_two)

lemma bindE_Inr: "bindE m f = Inr y \<longleftrightarrow> (\<exists>x. m = Inr x \<and> f x = Inr y)"
  by (cases m) (simp_all add: bindE_def)

lemma linspace_samples:
  assumes "linspace a b num = Inr ps"
  shows "ps = map (\<lambda>k. a + real k * ((b - a) / real (nat num - 1))) [0..<nat num]"
proof -
  let ?n = "nat num"
  let ?f = "\<lambda>k. a + real k * ((b - a) / real (?n - 1))"
  from assms have nn: "\<not> num < 0" and
    ps: "ps = (if 1 < ?n then (map ?f [0..<?n])[?n - 1 := b] else map ?f [0..<?n])"
    by (auto simp: linspace_def Let_def split: if_splits)
  show ?thesis
  proof (cases "1 < ?n")
    case True
    then have "?f (?n - 1) = b" by simp
    then have "(map ?f [0..<?n])[?n - 1 := b] = map ?f [0..<?n]"
      using True by (intro list_update_same_conv [THEN iffD2]) auto
    with ps True show ?thesis by simp
  next
    case False
    with ps show ?thesis by simp
  qed
qed

lemma linspace_length: "linspace a b num = Inr ps \<Longrightarrow> length ps = nat num"
  by (drule linspace_samples) simp









lemma fixed_cost_sorted:
  "0 \<le> PMAX g \<Longrightarrow> sorted (fst (fixed_cost g)) \<and> length (snd (fixed_cost g)) = length (fst (fixed_cost g))"
  by (simp add: fixed_cost_def)










text \<open>
  C7. For a generator with \<open>MODEL = 2\<close> and \<open>NCOST = 2\<close> whose columns \<open>COST_0\<close> and
  \<open>COST_1\<close> hold c0 and c1, the pass of the loop stores exactly two breakpoints, PMIN
  and PMAX, with the costs c0 + c1 * p at each; when PMIN = PMAX the upper breakpoint
  is PMAX + 1.
\<close>

theorem linear_cost_two_breakpoints:
  assumes "MODEL g = 2" and "NCOST g = 2" and "COST g = c0 # c1 # cs"
  shows "cost_curve_step segments (i, g) (points, values) =
           Inr (AList.update i [PMIN g, PMAX g + (if PMIN g = PMAX g then 1 else 0)] points,
                AList.update i [c0 + c1 * PMIN g,
                                c0 + c1 * (PMAX g + (if PMIN g = PMAX g then 1 else 0))] values)"
  using assms
  by (simp add: cost_curve_step_def polynomial_cost_def linspace_two cost_column_def
      bindE_def store_curve_def Let_def)

theorem linear_cost_two_breakpoints_witness:
  "cost_curve_step (PyInt 2)
     (''g1'', \<lparr>PMIN = 5, PMAX = 5, MODEL = 2, NCOST = 2, COST = [3, 2],
               STARTUP = 0, SHUTDOWN = 0\<rparr>) ([], [])
   = Inr ([(''g1'', [5, 6])], [(''g1'', [13, 15])])"
  using linear_cost_two_breakpoints [of "\<lparr>PMIN = 5, PMAX = 5, MODEL = 2, NCOST = 2,
     COST = [3, 2], STARTUP = 0, SHUTDOWN = 0\<rparr>" 3 2 "[]" "PyInt 2" "''g1''" "[]" "[]"]
  by simp

subsection \<open>Configuration, reserve factors and the assembled model\<close>

lemma pop_value: "fst (pop key dflt c) = (case c key of None \<Rightarrow> dflt | Some v \<Rightarrow> v)"
  by (simp add: pop_def split: option.splits)

lemma pop_rest: "snd (pop key dflt c) = c(key := None)"
  by (auto simp: pop_def split: option.splits)

lemma get_configuration_rest:
  "snd (get_configuration c) =
     (\<lambda>k. if k \<in> recognized_keys then None else c k)"
  by (rule ext) (simp add: get_configuration_def Let_def pop_rest recognized_keys_def)

lemma get_configuration_resolve:
  "cfg_resolve (fst (get_configuration c)) = (case c ''resolve'' of None \<Rightarrow> PyBool False | Some v \<Rightarrow> v)"
  by (simp add: get_configuration_def Let_def pop_rest pop_value)

lemma get_configuration_market_type:
  "cfg_market_type (fst (get_configuration c)) =
     (case c ''market_type'' of None \<Rightarrow> PyStr ''day_ahead'' | Some v \<Rightarrow> v)"
  by (simp add: get_configuration_def Let_def pop_rest pop_value)

lemma flexible_ramping_selector_Inr:
  "flexible_ramping_selector mt m = Inr m' \<Longrightarrow>
     m' = constraint_for_Flexible_Ramping m
     \<and> mt \<in> {PyStr ''day_ahead'', PyStr ''hourly_ahead'', PyStr ''real_time''}"
  by (auto simp: flexible_ramping_selector_def split: if_splits)

lemma flexible_ramping_selector_unknown:
  "mt \<notin> {PyStr ''day_ahead'', PyStr ''hourly_ahead'', PyStr ''real_time''} \<Longrightarrow>
     flexible_ramping_selector mt m = Inl (NotImplementedError_market mt)"
  by (simp add: flexible_ramping_selector_def)

lemma flexible_ramping_selector_known:
  "mt \<in> {PyStr ''day_ahead'', PyStr ''hourly_ahead'', PyStr ''real_time''} \<Longrightarrow>
     flexible_ramping_selector mt m = Inr (constraint_for_Flexible_Ramping m)"
  by (auto simp: flexible_ramping_selector_def)

lemma build_model_Inr:
  assumes "snd (build_model generator_df load_index prev rf rrf frf config) = Inr self"
  shows "\<exists>m. self = PSSTModel_init (constraint_for_Flexible_Ramping
           (constraint_up_down_time
              (cfg_resolve (fst (get_configuration (case config of None \<Rightarrow> Map.empty | Some c \<Rightarrow> c)))) m))
         \<and> m_hot_start_costs m = to_dict STARTUP generator_df
         \<and> m_cold_start_costs m = to_dict STARTUP generator_df
         \<and> m_reserve_factor m = fst (default_factors rf rrf frf)
         \<and> m_regulating_reserve_factor m = fst (snd (default_factors rf rrf frf))
         \<and> m_flexible_ramp_factor m = snd (snd (default_factors rf rrf frf))
         \<and> UnitOn m = initialize_model (map fst generator_df) load_index
         \<and> cfg_market_type (fst (get_configuration (case config of None \<Rightarrow> Map.empty | Some c \<Rightarrow> c)))
             \<in> {PyStr ''day_ahead'', PyStr ''hourly_ahead'', PyStr ''real_time''}"
proof -
  from assms obtain isd curves model where
    sel: "flexible_ramping_selector
            (cfg_market_type (fst (get_configuration (case config of None \<Rightarrow> Map.empty | Some c \<Rightarrow> c))))
            (constraint_up_down_time
               (cfg_resolve (fst (get_configuration (case config of None \<Rightarrow> Map.empty | Some c \<Rightarrow> c))))
               \<lparr>m_initial_state = isd,
                m_points = fst curves,
                m_values = snd curves,
                m_hot_start_costs = to_dict STARTUP generator_df,
                m_cold_start_costs = to_dict STARTUP generator_df,
                m_shutdown_costs = to_dict SHUTDOWN generator_df,
                m_reserve_factor = fst (default_factors rf rrf frf),
                m_regulating_reserve_factor = fst (snd (default_factors rf rrf frf)),
                m_flexible_ramp_factor = snd (snd (default_factors rf rrf frf)),
                m_up_down_time_resolve = PyNone,
                m_flexible_ramping = False,
                UnitOn = initialize_model (map fst generator_df) load_index,
                EnforceUpTimeConstraintsInitial = False,
                EnforceUpTimeConstraintsSubsequent = False,
                EnforceDownTimeConstraintsInitial = False,
                EnforceDownTimeConstraintsSubsequent = False\<rparr>) = Inr model"
    and self: "self = PSSTModel_init model"
    unfolding build_model_def Let_def snd_conv bindE_Inr by blast
  from flexible_ramping_selector_Inr [OF sel] self show ?thesis
    by (intro exI conjI) (assumption | simp)+
qed

lemma assembled_fields:
  "m_hot_start_costs (constraint_for_Flexible_Ramping (constraint_up_down_time r m)) = m_hot_start_costs m"
  "m_cold_start_costs (constraint_for_Flexible_Ramping (constraint_up_down_time r m)) = m_cold_start_costs m"
  "m_reserve_factor (constraint_for_Flexible_Ramping (constraint_up_down_time r m)) = m_reserve_factor m"
  "m_regulating_reserve_factor (constraint_for_Flexible_Ramping (constraint_up_down_time r m))
     = m_regulating_reserve_factor m"
  "m_flexible_ramp_factor (constraint_for_Flexible_Ramping (constraint_up_down_time r m))
     = m_flexible_ramp_factor m"
  "UnitOn (constraint_for_Flexible_Ramping (constraint_up_down_time r m)) = UnitOn m"
  "m_up_down_time_resolve (constraint_for_Flexible_Ramping (constraint_up_down_time r m)) = r"
  "psst_model (PSSTModel_init x) = x"
  by (simp_all add: constraint_for_Flexible_Ramping_def constraint_up_down_time_def
      PSSTModel_init_def)

lemma default_factors_values:
  "fst (default_factors rf rrf frf) = (if rrf = None \<or> rf = None then Some 0 else rf)"
  "fst (snd (default_factors rf rrf frf)) = rrf"
  "snd (snd (default_factors rf rrf frf)) = (if frf = None then Some 0 else frf)"
  by (simp_all add: default_factors_def Let_def)

lemma build_model_succeeds:
  assumes "initial_state_derivation (map fst generator_df) load_index prev = Inr isd"
    and "piecewise_curves
           (cfg_segments (fst (get_configuration (case config of None \<Rightarrow> Map.empty | Some c \<Rightarrow> c))))
           generator_df = Inr curves"
    and "cfg_market_type (fst (get_configuration (case config of None \<Rightarrow> Map.empty | Some c \<Rightarrow> c)))
           \<in> {PyStr ''day_ahead'', PyStr ''hourly_ahead'', PyStr ''real_time''}"
  shows "\<exists>self. snd (build_model generator_df load_index prev rf rrf frf config) = Inr self"
  unfolding build_model_def Let_def snd_conv assms(1,2)
    flexible_ramping_selector_known [OF assms(3)]
  by (simp add: bindE_def)

lemma build_model_unknown_market:
  assumes "initial_state_derivation (map fst generator_df) load_index prev = Inr isd"
    and "piecewise_curves
           (cfg_segments (fst (get_configuration (case config of None \<Rightarrow> Map.empty | Some c \<Rightarrow> c))))
           generator_df = Inr curves"
    and "cfg_market_type (fst (get_configuration (case config of None \<Rightarrow> Map.empty | Some c \<Rightarrow> c)))
           \<notin> {PyStr ''day_ahead'', PyStr ''hourly_ahead'', PyStr ''real_time''}"
  shows "snd (build_model generator_df load_index prev rf rrf frf config)
           = Inl (NotImplementedError_market (cfg_market_type
                (fst (get_configuration (case config of None \<Rightarrow> Map.empty | Some c \<Rightarrow> c)))))"
  unfolding build_model_def Let_def snd_conv assms(1,2)
    flexible_ramping_selector_unknown [OF assms(3)]
  by (simp add: bindE_def)

lemma example_initial_state:
  "initial_state_derivation (map fst [(''g1'', example_generator)]) [0] None = Inr [(''g1'', - 1)]"
  by (simp add: initial_state_derivation_def default_previous_unit_commitment_def
      derive_initial_state_def diff_def bindE_def)

lemma example_curves:
  "piecewise_curves seg [(''g1'', example_generator)]
     = Inr ([(''g1'', [0, 10])], [(''g1'', [0, 1 / 100])])"
  by (simp add: piecewise_curves_def cost_curve_step_def example_generator_def
      fixed_cost_def store_curve_def bindE_def Let_def)

lemma example_build:
  "\<exists>self. snd (build_model [(''g1'', example_generator)] [0] None rf rrf frf None) = Inr self"
  by (rule build_model_succeeds [OF example_initial_state example_curves])
     (simp add: get_configuration_market_type)

text \<open>
  C1. In a model that \<open>build_model\<close> returns: when \<open>regulating_reserve_factor\<close> was passed
  as None, \<open>reserve_factor\<close> is 0 whatever the caller supplied and
  \<open>regulating_reserve_factor\<close> is still None; \<open>reserve_factor\<close> passed as None is 0;
  \<open>flexible_ramp_factor\<close> passed as None is 0, and is the caller's value otherwise,
  whatever the other two are. \<open>reserve_factor\<close> keeps the caller's value only when both
  it and \<open>regulating_reserve_factor\<close> were given.
\<close>

theorem reserve_factor_defaulting:
  assumes "snd (build_model generator_df load_index prev rf rrf frf config) = Inr self"
  shows "(rrf = None \<longrightarrow> m_reserve_factor (psst_model self) = Some 0
                         \<and> m_regulating_reserve_factor (psst_model self) = None)
       \<and> (rf = None \<longrightarrow> m_reserve_factor (psst_model self) = Some 0)
       \<and> (frf = None \<longrightarrow> m_flexible_ramp_factor (psst_model self) = Some 0)
       \<and> (rrf \<noteq> None \<and> rf \<noteq> None \<longrightarrow> m_reserve_factor (psst_model self) = rf)
       \<and> (frf \<noteq> None \<longrightarrow> m_flexible_ramp_factor (psst_model self) = frf)
       \<and> m_regulating_reserve_factor (psst_model self) = rrf"
proof -
  from build_model_Inr [OF assms] obtain m r where
    self: "self = PSSTModel_init (constraint_for_Flexible_Ramping (constraint_up_down_time r m))"
    and m: "m_reserve_factor m = fst (default_factors rf rrf frf)"
      "m_regulating_reserve_factor m = fst (snd (default_factors rf rrf frf))"
      "m_flexible_ramp_factor m = snd (snd (default_factors rf rrf frf))"
    by blast
  show ?thesis
    unfolding self assembled_fields m default_factors_values by simp
qed

theorem reserve_factor_defaulting_witness:
  "\<exists>self. snd (build_model [(''g1'', example_generator)] [0] None (Some (1 / 10)) None None None)
            = Inr self
     \<and> m_reserve_factor (psst_model self) = Some 0
     \<and> m_regulating_reserve_factor (psst_model self) = None
     \<and> m_flexible_ramp_factor (psst_model self) = Some 0"
proof -
  from example_build obtain self where
    b: "snd (build_model [(''g1'', example_generator)] [0] None (Some (1 / 10)) None None None)
          = Inr self" by blast
  from reserve_factor_defaulting [OF b] b show ?thesis by simp
qed

text \<open>
  C8. The selection on \<open>market_type\<close> adds the flexible-ramp constraints for each of
  \<open>day_ahead\<close>, \<open>hourly_ahead\<close> and \<open>real_time\<close> (the same call in the three branches)
  and raises NotImplementedError with the value for any other value. In \<open>build_model\<close>:
  with an unrecognized \<open>market_type\<close> in \<open>config\<close> no model is returned, and when the
  initial states and the cost curves were built the exception raised is that
  NotImplementedError.
\<close>

theorem market_type_selector:
  "flexible_ramping_selector market_type m =
     (if market_type \<in> {PyStr ''day_ahead'', PyStr ''hourly_ahead'', PyStr ''real_time''}
      then Inr (constraint_for_Flexible_Ramping m)
      else Inl (NotImplementedError_market market_type))
   \<and> (config ''market_type'' = Some market_type
        \<and> market_type \<notin> {PyStr ''day_ahead'', PyStr ''hourly_ahead'', PyStr ''real_time''}
      \<longrightarrow> (\<forall>self. snd (build_model generator_df load_index prev rf rrf frf (Some config))
                    \<noteq> Inr self)
          \<and> (initial_state_derivation (map fst generator_df) load_index prev = Inr isd
               \<and> piecewise_curves (cfg_segments (fst (get_configuration config))) generator_df
                   = Inr curves
             \<longrightarrow> snd (build_model generator_df load_index prev rf rrf frf (Some config))
                   = Inl (NotImplementedError_market market_type)))"
proof (intro conjI impI allI)
  show "flexible_ramping_selector market_type m =
     (if market_type \<in> {PyStr ''day_ahead'', PyStr ''hourly_ahead'', PyStr ''real_time''}
      then Inr (constraint_for_Flexible_Ramping m)
      else Inl (NotImplementedError_market market_type))"
    by (simp add: flexible_ramping_selector_def)
next
  fix self
  assume a: "config ''market_type'' = Some market_type
        \<and> market_type \<notin> {PyStr ''day_ahead'', PyStr ''hourly_ahead'', PyStr ''real_time''}"
  then have mt: "cfg_market_type (fst (get_configuration config)) = market_type"
    by (simp add: get_configuration_market_type)
  show "snd (build_model generator_df load_index prev rf rrf frf (Some config)) \<noteq> Inr self"
  proof
    assume "snd (build_model generator_df load_index prev rf rrf frf (Some config)) = Inr self"
    from build_model_Inr [OF this] mt a show False by simp
  qed
next
  assume a: "config ''market_type'' = Some market_type
        \<and> market_type \<notin> {PyStr ''day_ahead'', PyStr ''hourly_ahead'', PyStr ''real_time''}"
    and b: "initial_state_derivation (map fst generator_df) load_index prev = Inr isd
               \<and> piecewise_curves (cfg_segments (fst (get_configuration config))) generator_df
                   = Inr curves"
  from a have mt: "cfg_market_type (fst (get_configuration config)) = market_type"
    by (simp add: get_configuration_market_type)
  from build_model_unknown_market [of generator_df load_index prev isd "Some config" curves rf rrf frf]
    a b mt
  show "snd (build_model generator_df load_index prev rf rrf frf (Some config))
          = Inl (NotImplementedError_market market_type)"
    by simp
qed

theorem market_type_selector_witness:
  "snd (build_model [(''g1'', example_generator)] [0] None None None None
          (Some [''market_type'' \<mapsto> PyStr ''weekly'']))
     = Inl (NotImplementedError_market (PyStr ''weekly''))"
  using market_type_selector [of "PyStr ''weekly''" _ "[''market_type'' \<mapsto> PyStr ''weekly'']"
      "[(''g1'', example_generator)]" "[0]" None None None None "[(''g1'', - 1)]"
      "([(''g1'', [0, 10])], [(''g1'', [0, 1 / 100])])"]
    example_initial_state example_curves
  by simp

text \<open>
  C9. In a model that \<open>build_model\<close> returns, the hot-start and the cold-start cost
  dictionaries handed to the start-up cost construction are the same dictionary of the
  \<open>STARTUP\<close> column, so the cost selected for a generator is its \<open>STARTUP\<close> value
  whatever the offline duration and the threshold.
\<close>

theorem hot_cold_start_costs_equal:
  assumes "snd (build_model generator_df load_index prev rf rrf frf config) = Inr self"
  shows "m_hot_start_costs (psst_model self) = m_cold_start_costs (psst_model self)
       \<and> m_hot_start_costs (psst_model self) = to_dict STARTUP generator_df
       \<and> startup_cost_coefficient (psst_model self) g offline threshold
           = map_of (to_dict STARTUP generator_df) g"
proof -
  from build_model_Inr [OF assms] obtain m r where
    self: "self = PSSTModel_init (constraint_for_Flexible_Ramping (constraint_up_down_time r m))"
    and m: "m_hot_start_costs m = to_dict STARTUP generator_df"
      "m_cold_start_costs m = to_dict STARTUP generator_df"
    by blast
  show ?thesis
    unfolding startup_cost_coefficient_def self assembled_fields m by simp
qed

theorem hot_cold_start_costs_equal_witness:
  "\<exists>self. snd (build_model [(''g1'', example_generator)] [0] None None None None None) = Inr self
     \<and> m_hot_start_costs (psst_model self) = m_cold_start_costs (psst_model self)
     \<and> startup_cost_coefficient (psst_model self) ''g1'' 1 5 = Some 7
     \<and> startup_cost_coefficient (psst_model self) ''g1'' 9 5 = Some 7"
proof -
  from example_build obtain self where
    b: "snd (build_model [(''g1'', example_generator)] [0] None None None None None) = Inr self"
    by blast
  have d: "map_of (to_dict STARTUP [(''g1'', example_generator)]) ''g1'' = Some 7"
    by (simp add: to_dict_def example_generator_def)
  from hot_cold_start_costs_equal [OF b, of "''g1''" 1 5]
    hot_cold_start_costs_equal [OF b, of "''g1''" 9 5] b d
  show ?thesis by simp
qed


subsection \<open>Solving\<close>





lemma py_int_of_int: "real_of_int (py_int (real_of_int n)) = real_of_int n"
  by (simp add: py_int_def)


lemma PSSTModel_solve_single:
  assumes "\<not> resolve_arg" and "solver \<noteq> ''xpress''"
  shows "PSSTModel_solve solve_model unit_commitment self solver verbose keepfiles resolve_arg =
     bindE (solve_model (psst_model self) solver verbose keepfiles None) (\<lambda>m1.
       Inr (self\<lparr>psst_model := m1, psst_results := Some PSSTResults,
                 psst_status := Some ''solved''\<rparr>))"
  using assms
  by (auto simp: PSSTModel_solve_def bindE_def Let_def split: sum.splits)

lemma build_model_value:
  assumes "initial_state_derivation (map fst generator_df) load_index prev = Inr isd"
    and "piecewise_curves
           (cfg_segments (fst (get_configuration (case config of None \<Rightarrow> Map.empty | Some c \<Rightarrow> c))))
           generator_df = Inr curves"
    and "cfg_market_type (fst (get_configuration (case config of None \<Rightarrow> Map.empty | Some c \<Rightarrow> c)))
           \<in> {PyStr ''day_ahead'', PyStr ''hourly_ahead'', PyStr ''real_time''}"
  shows "\<exists>m. snd (build_model generator_df load_index prev rf rrf frf config)
           = Inr (PSSTModel_init (constraint_for_Flexible_Ramping (constraint_up_down_time
               (cfg_resolve (fst (get_configuration (case config of None \<Rightarrow> Map.empty | Some c \<Rightarrow> c))))
               m)))
         \<and> UnitOn m = initialize_model (map fst generator_df) load_index"
proof -
  from build_model_succeeds [OF assms] obtain self where
    b: "snd (build_model generator_df load_index prev rf rrf frf config) = Inr self" by blast
  from build_model_Inr [OF b] b show ?thesis by auto
qed

lemma example_unit_on:
  "initialize_model [''g1''] [0] (''g1'', 0) = Some \<lparr>var_value = None, var_fixed = False\<rparr>"
  by (simp add: initialize_model_def)

lemma example_solve_unfixed:
  assumes "UnitOn m (''g1'', 0) = Some \<lparr>var_value = None, var_fixed = False\<rparr>"
  shows "commitment_fixed
           (PSSTModel_solve example_solve_model example_unit_commitment (PSSTModel_init m)
              ''glpk'' False False False) ''g1'' 0 = Some False"
  using assms
  by (simp add: PSSTModel_solve_single commitment_fixed_def example_solve_model_def
      bindE_def PSSTModel_init_def)




text \<open>
  C3, as stated, fails: with \<open>resolve\<close> set to true in \<open>config\<close> and \<open>solve\<close> called
  without a \<open>resolve\<close> argument, the commitment variable that the first solve set to 1
  is not fixed afterwards, so the fix-and-resolve phase did not run.
\<close>

theorem config_resolve_counterexample:
  "commitment_fixed
     (build_then_solve example_solve_model example_unit_commitment
        [(''g1'', example_generator)] [0] (Some [''resolve'' \<mapsto> PyBool True]) ''glpk'')
     ''g1'' 0 = Some False"
proof -
  have mt: "cfg_market_type (fst (get_configuration
      (case Some [''resolve'' \<mapsto> PyBool True] of None \<Rightarrow> Map.empty | Some c \<Rightarrow> c)))
           \<in> {PyStr ''day_ahead'', PyStr ''hourly_ahead'', PyStr ''real_time''}"
    by (simp add: get_configuration_market_type)
  from build_model_value [OF example_initial_state example_curves mt, of None None None]
  obtain m where
    b: "snd (build_model [(''g1'', example_generator)] [0] None None None None
              (Some [''resolve'' \<mapsto> PyBool True]))
          = Inr (PSSTModel_init (constraint_for_Flexible_Ramping (constraint_up_down_time
               (cfg_resolve (fst (get_configuration
                  (case Some [''resolve'' \<mapsto> PyBool True] of None \<Rightarrow> Map.empty | Some c \<Rightarrow> c))))
               m)))"
    and u: "UnitOn m = initialize_model (map fst [(''g1'', example_generator)]) [0]"
    by blast
  have "UnitOn (constraint_for_Flexible_Ramping (constraint_up_down_time
               (cfg_resolve (fst (get_configuration
                  (case Some [''resolve'' \<mapsto> PyBool True] of None \<Rightarrow> Map.empty | Some c \<Rightarrow> c))))
               m)) (''g1'', 0) = Some \<lparr>var_value = None, var_fixed = False\<rparr>"
    unfolding assembled_fields u by (simp add: initialize_model_def)
  from example_solve_unfixed [OF this] show ?thesis
    unfolding build_then_solve_def b by (simp add: bindE_def)
qed

text \<open>
  C3, amended. The \<open>resolve\<close> entry of \<open>config\<close> is removed from the dictionary and
  handed to \<open>constraint_up_down_time\<close> only. On a model that \<open>build_model\<close> returned, a
  call of \<open>solve\<close> without a \<open>resolve\<close> argument and with a solver other than \<open>xpress\<close>
  is the single first solve, whatever \<open>config\<close> held.
\<close>

theorem config_resolve_only_reaches_up_down_time:
  assumes "snd (build_model generator_df load_index prev rf rrf frf (Some config)) = Inr self"
    and "solver \<noteq> ''xpress''"
  shows "PSSTModel_solve solve_model unit_commitment self solver verbose keepfiles False =
           bindE (solve_model (psst_model self) solver verbose keepfiles None) (\<lambda>m1.
             Inr (self\<lparr>psst_model := m1, psst_results := Some PSSTResults,
                       psst_status := Some ''solved''\<rparr>))
       \<and> m_up_down_time_resolve (psst_model self)
           = (case config ''resolve'' of None \<Rightarrow> PyBool False | Some v \<Rightarrow> v)
       \<and> fst (build_model generator_df load_index prev rf rrf frf (Some config)) ''resolve'' = None"
proof -
  from build_model_Inr [OF assms(1)] obtain m where
    self: "self = PSSTModel_init (constraint_for_Flexible_Ramping (constraint_up_down_time
             (cfg_resolve (fst (get_configuration config))) m))"
    by auto
  have "m_up_down_time_resolve (psst_model self)
           = (case config ''resolve'' of None \<Rightarrow> PyBool False | Some v \<Rightarrow> v)"
    unfolding self assembled_fields get_configuration_resolve ..
  moreover have "fst (build_model generator_df load_index prev rf rrf frf (Some config)) ''resolve'' = None"
    by (simp add: build_model_def Let_def get_configuration_rest recognized_keys_def)
  ultimately show ?thesis
    using PSSTModel_solve_single [of False solver solve_model unit_commitment self verbose keepfiles]
      assms(2) by simp
qed

theorem config_resolve_only_reaches_up_down_time_witness:
  "\<exists>self. snd (build_model [(''g1'', example_generator)] [0] None None None None
                 (Some [''resolve'' \<mapsto> PyBool True])) = Inr self
     \<and> PSSTModel_solve stale_solve_model example_unit_commitment self ''glpk'' False False False
         = Inr (self\<lparr>psst_results := Some PSSTResults, psst_status := Some ''solved''\<rparr>)
     \<and> m_up_down_time_resolve (psst_model self) = PyBool True"
proof -
  have mt: "cfg_market_type (fst (get_configuration
      (case Some [''resolve'' \<mapsto> PyBool True] of None \<Rightarrow> Map.empty | Some c \<Rightarrow> c)))
           \<in> {PyStr ''day_ahead'', PyStr ''hourly_ahead'', PyStr ''real_time''}"
    by (simp add: get_configuration_market_type)
  from build_model_succeeds [OF example_initial_state example_curves mt, of None None None]
  obtain self where
    b: "snd (build_model [(''g1'', example_generator)] [0] None None None None
              (Some [''resolve'' \<mapsto> PyBool True])) = Inr self"
    by blast
  have x: "''glpk'' \<noteq> ''xpress''" by simp
  from config_resolve_only_reaches_up_down_time [OF b x, of stale_solve_model
      example_unit_commitment False False] b
  show ?thesis
    by (simp add: stale_solve_model_def bindE_def)
qed

end
